theory Spec2Isabelle
  imports Main "HOL-Library.Word" "HOL-Library.Stream" "HOL-Library.AList"
    "HOL-Library.Char_ord" "HOL-Library.List_Lexorder"
begin

section \<open>Data model of \<open>main.go\<close>\<close>

text \<open>
  Go's \<open>int\<close> is a 64-bit two's complement integer on the 64-bit targets: \<open>+\<close> and \<open>*\<close>
  wrap around, comparisons are signed. It is embedded as \<open>64 word\<close>, read through
  \<open>sint\<close> and compared with the signed orders \<open>\<le>s\<close> and \<open><s\<close>.
\<close>

type_synonym go_int = "64 word"

record Config =
  Name :: string
  Chance :: go_int
  Grace :: go_int
  Pity :: go_int
  Variance :: go_int

record State =
  PityCounter :: go_int
  LastRoll :: go_int

text \<open>
  Every way a command of the tool stops early: each \<open>log.Fatal\<close> of \<open>main.go\<close> (it
  exits the process) and the panic of \<open>rand.Intn\<close>. Failures of the operating system and
  of the database engine that do not depend on the arguments and the directories (a
  full disk, a locked file, a missing permission) are not modelled.
\<close>

datatype error =
    IntnPanic
  | InvalidChanceValue | InvalidGraceValue | InvalidPityValue | InvalidVarianceValue
  | ChanceOutOfRange | GraceNegative | PityNegative | VarianceNegative
  | FailedToCreateConfigFile
  | FailedToInitializeState
  | FailedToLoadConfig
  | StatesBucketNotFound
  | StateNotFound
  | FailedToDeleteConfigFile
  | InvalidDiceType

text \<open>
  The lines the commands print, one constructor for each \<open>Printf\<close> format of \<open>main.go\<close>
  with the values it prints. The two commands that print \<open>Roll: %d\<close> share \<open>RollLine\<close>,
  the two that print the variance line share \<open>VarianceLine\<close>.
\<close>

datatype out =
    CreatedLine string
  | ChanceLine go_int
  | GraceLine go_int
  | PityLine go_int
  | VarianceLine go_int go_int
  | ConfigSavedLine "string list"
  | RollingLine string
  | RollingDiceLine string
  | BaseChanceLine go_int
  | PityCounterLine go_int
  | GraceBonusLine go_int
  | EffectiveChanceLine go_int
  | RollLine go_int
  | SuccessLine
  | FailedLine
  | AvailableLine
  | ListNameLine string
  | ListDetailsLine go_int go_int go_int go_int
  | CurrentPityLine go_int
  | ConfigurationLine string
  | ShowBaseChanceLine go_int
  | ShowGraceLine go_int
  | MaxPityLine go_int
  | CurrentStateLine
  | ShowPityCounterLine go_int
  | CurrentChanceLine go_int
  | LastRollLine go_int
  | ConfigFileLine "string list"
  | DeletedLine string
  | ShiftedResultLine go_int go_int
  | ShiftedRangeLine string go_int go_int
  | StandardRangeLine string go_int

text \<open>
  The file system and the database. A path is the list of the components of a cleaned
  absolute path. \<open>configDir\<close> is the directory \<open>.roll\<close> of the home directory, set by
  \<open>init\<close>; \<open>dirs\<close> are the directories that exist (the tool makes none but \<open>configDir\<close>);
  \<open>configFiles\<close> are the configuration files that exist, each with the record it decodes
  to. No directory has the path of a configuration file. The database \<open>roll.db\<close> holds
  the bucket \<open>states\<close>, absent until the first \<open>create\<close>, a map from the name, as it was
  typed, to the state.
\<close>

type_synonym path = "string list"

record Store =
  configDir :: path
  dirs :: "path list"
  configFiles :: "(path \<times> Config) list"
  statesBucket :: "(string \<rightharpoonup> State) option"

text \<open>
  The first start of the tool under a home directory: \<open>init\<close> has made \<open>configDir\<close>, which
  holds no configuration, and \<open>main\<close> has opened an empty database.
\<close>

definition emptyStore :: "path \<Rightarrow> Store" where
  "emptyStore home =
     \<lparr>configDir = home @ [''.roll''],
      dirs = map (\<lambda>n. take n (home @ [''.roll''])) [0 ..< Suc (Suc (length home))],
      configFiles = [],
      statesBucket = None\<rparr>"

subsection \<open>The random source\<close>

text \<open>
  \<open>math/rand\<close> is not part of the repository. Its contract is embedded: \<open>rand.Intn n\<close>
  panics when \<open>n \<le> 0\<close>, and otherwise advances the generator and returns a value of
  \<open>[0, n)\<close>. The generator is a stream of raw naturals; a draw consumes the head and
  reduces it modulo \<open>n\<close>, so every value of \<open>[0, n)\<close> can come out and nothing else.
\<close>

type_synonym RandomSource = "nat stream"

definition intnValue :: "go_int \<Rightarrow> RandomSource \<Rightarrow> go_int" where
  "intnValue n rng = word_of_nat (shd rng mod nat (sint n))"

definition Intn :: "go_int \<Rightarrow> RandomSource \<Rightarrow> error + (go_int \<times> RandomSource)" where
  "Intn n rng =
     (if n \<le>s 0 then Inl IntnPanic
      else Inr (intnValue n rng, stl rng))"

subsection \<open>The decision roll (\<open>rollCmd\<close>, the body of the transaction)\<close>

text \<open>
  What one roll prints and decides: the base chance, the pity counter and the grace
  bonus before the roll, the effective chance after the cap, the raw roll and the
  outcome.
\<close>

record RollReport =
  baseChance :: go_int
  pityBefore :: go_int
  graceBonus :: go_int
  effectiveChance :: go_int
  roll :: go_int
  success :: bool

text \<open>
  Lines 188 to 194: with \<open>Variance > 0\<close>, \<open>varianceRoll := rand.Intn(Variance) + 1\<close> and
  then \<open>rand.Intn(varianceRoll) == 0\<close> decides whether \<open>Grace\<close> is added once more.
\<close>

definition applyVariance ::
  "Config \<Rightarrow> go_int \<Rightarrow> RandomSource \<Rightarrow> error + (go_int \<times> RandomSource)" where
  "applyVariance config effChance rng =
     (if 0 <s Variance config then
        (case Intn (Variance config) rng of
           Inl e \<Rightarrow> Inl e
         | Inr (v, rng1) \<Rightarrow>
             (let varianceRoll = v + 1 in
              case Intn varianceRoll rng1 of
                Inl e \<Rightarrow> Inl e
              | Inr (t, rng2) \<Rightarrow>
                  if t = 0 then Inr (effChance + Grace config, rng2)
                  else Inr (effChance, rng2)))
      else Inr (effChance, rng))"

text \<open>Lines 196 to 199: the cap at 100.\<close>

definition capChance :: "go_int \<Rightarrow> go_int" where
  "capChance effChance = (if 100 <s effChance then 100 else effChance)"

text \<open>
  Lines 185 to 222: the effective chance, the variance draw, the cap, the roll, and the
  update of the state.
\<close>

definition decisionRoll ::
  "Config \<Rightarrow> State \<Rightarrow> RandomSource \<Rightarrow> error + (State \<times> RollReport \<times> RandomSource)" where
  "decisionRoll config state rng =
     (let effChance0 = Chance config + PityCounter state * Grace config in
      case applyVariance config effChance0 rng of
        Inl e \<Rightarrow> Inl e
      | Inr (effChance1, rng1) \<Rightarrow>
          (let effChance = capChance effChance1 in
           case Intn 100 rng1 of
             Inl e \<Rightarrow> Inl e
           | Inr (r, rng2) \<Rightarrow>
               (let rollv = r + 1;
                    succ = rollv \<le>s effChance;
                    pc = (if succ then 0
                          else if PityCounter state <s Pity config then PityCounter state + 1
                          else PityCounter state)
                in Inr (\<lparr>PityCounter = pc, LastRoll = rollv\<rparr>,
                        \<lparr>baseChance = Chance config,
                         pityBefore = PityCounter state,
                         graceBonus = PityCounter state * Grace config,
                         effectiveChance = effChance,
                         roll = rollv,
                         success = succ\<rparr>,
                        rng2))))"

text \<open>The integers a Go \<open>int\<close> holds without wrapping around.\<close>

definition fitsInt64 :: "int \<Rightarrow> bool" where
  "fitsInt64 i = (- (2 ^ 63) \<le> i \<and> i < 2 ^ 63)"

subsection \<open>Parsing the numeric arguments\<close>

text \<open>
  \<open>strconv.Atoi\<close> is not part of the repository. Its contract is embedded: an optional
  sign \<open>+\<close> or \<open>-\<close>, then at least one decimal digit and nothing else, and the value must
  fit a 64-bit signed integer; everything else is an error.
\<close>

definition digitVal :: "char \<Rightarrow> nat option" where
  "digitVal c =
     (let k = (of_char c :: nat) in if 48 \<le> k \<and> k \<le> 57 then Some (k - 48) else None)"

fun digitsVal :: "string \<Rightarrow> nat \<Rightarrow> nat option" where
  "digitsVal [] acc = Some acc"
| "digitsVal (c # cs) acc =
     (case digitVal c of None \<Rightarrow> None | Some d \<Rightarrow> digitsVal cs (acc * 10 + d))"

definition Atoi :: "string \<Rightarrow> go_int option" where
  "Atoi s =
     (case s of
        [] \<Rightarrow> None
      | c # cs \<Rightarrow>
          (let neg = (c = CHR ''-'');
               ds = (if c = CHR ''-'' \<or> c = CHR ''+'' then cs else s)
           in if ds = [] then None
              else case digitsVal ds 0 of
                     None \<Rightarrow> None
                   | Some n \<Rightarrow>
                       if neg then (if n \<le> 2 ^ 63 then Some (- word_of_nat n) else None)
                       else (if n < 2 ^ 63 then Some (word_of_nat n) else None)))"

subsection \<open>The path of a configuration file\<close>

text \<open>
  Lines 115, 333 and 411 name the file of a configuration
  \<open>filepath.Join(configDir, name + ".toml")\<close>. \<open>path/filepath\<close> is not part of the
  repository. Its contract is embedded, for a file system with the separator \<open>/\<close>:
  \<open>Join\<close> puts the separator between its arguments and cleans the result, which drops
  the empty components and the components \<open>.\<close>, and lets a component \<open>..\<close> take away the
  component before it (at the root, nothing). So \<open>a\<close>, \<open>./a\<close> and \<open>x/../a\<close> name one file.
\<close>

fun splitPath :: "string \<Rightarrow> string list" where
  "splitPath [] = [[]]"
| "splitPath (c # cs) =
     (if c = CHR ''/'' then [] # splitPath cs
      else (case splitPath cs of [] \<Rightarrow> [[c]] | x # xs \<Rightarrow> (c # x) # xs))"

definition cleanStep :: "path \<Rightarrow> string \<Rightarrow> path" where
  "cleanStep p c =
     (if c = [] \<or> c = ''.'' then p
      else if c = ''..'' then butlast p
      else p @ [c])"

definition configPath :: "Store \<Rightarrow> string \<Rightarrow> path" where
  "configPath st name = foldl cleanStep (configDir st) (splitPath (name @ ''.toml''))"

subsection \<open>\<open>createCmd\<close>\<close>

text \<open>Lines 92 to 104: the range checks, in the order of the source.\<close>

definition validate :: "go_int \<Rightarrow> go_int \<Rightarrow> go_int \<Rightarrow> go_int \<Rightarrow> error option" where
  "validate chance grace pity variance =
     (if chance <s 0 \<or> 100 <s chance then Some ChanceOutOfRange
      else if grace <s 0 then Some GraceNegative
      else if pity <s 0 then Some PityNegative
      else if variance <s 0 then Some VarianceNegative
      else None)"

text \<open>The configurations \<open>create\<close> accepts.\<close>

definition validConfig :: "Config \<Rightarrow> bool" where
  "validConfig config =
     (validate (Chance config) (Grace config) (Pity config) (Variance config) = None)"

text \<open>
  \<open>os.Create\<close> fails when the directory of the path does not exist; otherwise it
  truncates the file of that path or makes a new one, and the encoder writes the
  record. Then, in one transaction, \<open>CreateBucketIfNotExists\<close> and \<open>b.Put name {0, 0}\<close>.
  \<open>Put\<close> refuses an empty key: the transaction is rolled back and \<open>log.Fatal\<close> ends the
  command, with the file already written.
\<close>

definition createCmd ::
  "string \<Rightarrow> string \<Rightarrow> string \<Rightarrow> string \<Rightarrow> string \<Rightarrow> Store \<Rightarrow> Store \<times> (error + out list)" where
  "createCmd name a1 a2 a3 a4 st =
     (case Atoi a1 of None \<Rightarrow> (st, Inl InvalidChanceValue) | Some chance \<Rightarrow>
     (case Atoi a2 of None \<Rightarrow> (st, Inl InvalidGraceValue) | Some grace \<Rightarrow>
     (case Atoi a3 of None \<Rightarrow> (st, Inl InvalidPityValue) | Some pity \<Rightarrow>
     (case Atoi a4 of None \<Rightarrow> (st, Inl InvalidVarianceValue) | Some variance \<Rightarrow>
     (case validate chance grace pity variance of
        Some e \<Rightarrow> (st, Inl e)
      | None \<Rightarrow>
          (let config = \<lparr>Name = name, Chance = chance, Grace = grace, Pity = pity,
                          Variance = variance\<rparr>;
               file = configPath st name
           in if butlast file \<notin> set (dirs st) then (st, Inl FailedToCreateConfigFile)
              else
                (let st1 = st\<lparr>configFiles := AList.update file config (configFiles st)\<rparr>
                 in if name = [] then (st1, Inl FailedToInitializeState)
                    else
                      (let b = (case statesBucket st1 of None \<Rightarrow> Map.empty | Some b \<Rightarrow> b);
                           state = \<lparr>PityCounter = 0, LastRoll = 0\<rparr>
                       in (st1\<lparr>statesBucket := Some (b(name \<mapsto> state))\<rparr>,
                           Inr [CreatedLine name, ChanceLine chance, GraceLine grace,
                                PityLine pity, VarianceLine variance grace,
                                ConfigSavedLine file])))))))))"

subsection \<open>\<open>loadConfig\<close>, \<open>rollCmd\<close>, \<open>listCmd\<close>, \<open>showCmd\<close>, \<open>deleteCmd\<close>\<close>

definition loadConfig :: "string \<Rightarrow> Store \<Rightarrow> Config option" where
  "loadConfig name st = map_of (configFiles st) (configPath st name)"

text \<open>
  \<open>rollCmd\<close>: the configuration is loaded, then one transaction reads the state, rolls,
  prints and writes the state back. An error or a panic inside the transaction rolls it
  back.
\<close>

definition rollCmd ::
  "string \<Rightarrow> Store \<Rightarrow> RandomSource \<Rightarrow> Store \<times> RandomSource \<times> (error + out list)" where
  "rollCmd name st rng =
     (case loadConfig name st of
        None \<Rightarrow> (st, rng, Inl FailedToLoadConfig)
      | Some config \<Rightarrow>
          (case statesBucket st of
             None \<Rightarrow> (st, rng, Inl StatesBucketNotFound)
           | Some b \<Rightarrow>
               (case b name of
                  None \<Rightarrow> (st, rng, Inl StateNotFound)
                | Some state \<Rightarrow>
                    (case decisionRoll config state rng of
                       Inl e \<Rightarrow> (st, rng, Inl e)
                     | Inr (state', rep, rng') \<Rightarrow>
                         (st\<lparr>statesBucket := Some (b(name \<mapsto> state'))\<rparr>, rng',
                          Inr [RollingLine name,
                               BaseChanceLine (baseChance rep),
                               PityCounterLine (pityBefore rep),
                               GraceBonusLine (graceBonus rep),
                               EffectiveChanceLine (effectiveChance rep),
                               RollLine (roll rep),
                               if success rep then SuccessLine else FailedLine])))))"

text \<open>
  \<open>listCmd\<close>: \<open>os.ReadDir\<close> gives the entries of \<open>configDir\<close> sorted by file name. For each
  entry with the extension \<open>.toml\<close>, the name is the file name without the extension;
  its configuration is loaded and printed with the pity counter of its state, that of
  the zero \<open>State\<close> when there is no bucket or no record.
\<close>

definition readDir :: "Store \<Rightarrow> string list" where
  "readDir st =
     sort (map (\<lambda>e. last (fst e))
             (filter (\<lambda>e. fst e \<noteq> [] \<and> butlast (fst e) = configDir st) (configFiles st)))"

definition listEntry :: "Store \<Rightarrow> string \<Rightarrow> out list" where
  "listEntry st fileName =
     (if drop (length fileName - 5) fileName = ''.toml'' then
        (let name = take (length fileName - 5) fileName
         in case loadConfig name st of
              None \<Rightarrow> []
            | Some config \<Rightarrow>
                (let state = (case statesBucket st of
                                None \<Rightarrow> \<lparr>PityCounter = 0, LastRoll = 0\<rparr>
                              | Some b \<Rightarrow>
                                  (case b name of
                                     None \<Rightarrow> \<lparr>PityCounter = 0, LastRoll = 0\<rparr>
                                   | Some s \<Rightarrow> s))
                 in [ListNameLine name,
                     ListDetailsLine (Chance config) (Grace config) (Pity config)
                       (Variance config),
                     CurrentPityLine (PityCounter state)]))
      else [])"

definition listCmd :: "Store \<Rightarrow> Store \<times> (error + out list)" where
  "listCmd st = (st, Inr (AvailableLine # concat (map (listEntry st) (readDir st))))"

text \<open>\<open>showCmd\<close>: line 319 prints \<open>Chance + PityCounter * Grace\<close> as the current chance.\<close>

definition showCmd :: "string \<Rightarrow> Store \<Rightarrow> Store \<times> (error + out list)" where
  "showCmd name st =
     (case loadConfig name st of
        None \<Rightarrow> (st, Inl FailedToLoadConfig)
      | Some config \<Rightarrow>
          (case statesBucket st of
             None \<Rightarrow> (st, Inl StatesBucketNotFound)
           | Some b \<Rightarrow>
               (case b name of
                  None \<Rightarrow> (st, Inl StateNotFound)
                | Some state \<Rightarrow>
                    (st, Inr [ConfigurationLine name,
                              ShowBaseChanceLine (Chance config),
                              ShowGraceLine (Grace config),
                              MaxPityLine (Pity config),
                              VarianceLine (Variance config) (Grace config),
                              CurrentStateLine,
                              ShowPityCounterLine (PityCounter state),
                              CurrentChanceLine
                                (Chance config + PityCounter state * Grace config),
                              LastRollLine (LastRoll state),
                              ConfigFileLine (configPath st name)]))))"

text \<open>
  \<open>deleteCmd\<close>: \<open>os.Remove\<close> fails when no file has the path; then the record of the
  name is deleted from the bucket, if there is a bucket.
\<close>

definition deleteCmd :: "string \<Rightarrow> Store \<Rightarrow> Store \<times> (error + out list)" where
  "deleteCmd name st =
     (case map_of (configFiles st) (configPath st name) of
        None \<Rightarrow> (st, Inl FailedToDeleteConfigFile)
      | Some _ \<Rightarrow>
          (st\<lparr>configFiles := AList.delete (configPath st name) (configFiles st),
              statesBucket := (case statesBucket st of
                                 None \<Rightarrow> None
                               | Some b \<Rightarrow> Some (b(name := None)))\<rparr>,
           Inr [DeletedLine name]))"

subsection \<open>\<open>diceCmd\<close>\<close>

text \<open>Lines 367 to 387: the switch on the dice type; \<open>None\<close> is the default branch.\<close>

definition diceSides :: "string \<Rightarrow> go_int option" where
  "diceSides diceType =
     (if diceType = ''d10'' \<or> diceType = ''D10'' then Some 10
      else if diceType = ''d5'' \<or> diceType = ''D5'' then Some 5
      else if diceType = ''d4'' \<or> diceType = ''D4'' then Some 4
      else if diceType = ''d6'' \<or> diceType = ''D6'' then Some 6
      else if diceType = ''d8'' \<or> diceType = ''D8'' then Some 8
      else if diceType = ''d12'' \<or> diceType = ''D12'' then Some 12
      else if diceType = ''d20'' \<or> diceType = ''D20'' then Some 20
      else if diceType = ''d100'' \<or> diceType = ''D100'' then Some 100
      else None)"

definition diceCmd ::
  "string \<Rightarrow> go_int \<Rightarrow> RandomSource \<Rightarrow> RandomSource \<times> (error + out list)" where
  "diceCmd diceType shiftv rng =
     (case diceSides diceType of
        None \<Rightarrow> (rng, Inl InvalidDiceType)
      | Some sides \<Rightarrow>
          (case Intn sides rng of
             Inl e \<Rightarrow> (rng, Inl e)
           | Inr (r, rng') \<Rightarrow>
               (let rollv = r + 1
                in (rng',
                    Inr ([RollingDiceLine diceType, RollLine rollv] @
                         (if shiftv \<noteq> 0
                          then [ShiftedResultLine (rollv + shiftv) shiftv,
                                ShiftedRangeLine diceType (1 + shiftv) (sides + shiftv)]
                          else [StandardRangeLine diceType sides]))))))"

text \<open>
  The dice types as the documentation of the command gives them, \<open>d4\<close> to \<open>d100\<close>, with
  their sides, and the lower case of a character. They say what matching the dice type
  without regard to case means; \<open>diceSides\<close> is compared with them.
\<close>

definition diceTable :: "(string \<times> go_int) list" where
  "diceTable = [(''d4'', 4), (''d5'', 5), (''d6'', 6), (''d8'', 8), (''d10'', 10),
                (''d12'', 12), (''d20'', 20), (''d100'', 100)]"

definition lowerChar :: "char \<Rightarrow> char" where
  "lowerChar c =
     (let k = (of_char c :: nat) in if 65 \<le> k \<and> k \<le> 90 then char_of (k + 32) else c)"

subsection \<open>One invocation of the tool, and sequences of invocations\<close>

text \<open>
  The command line after \<open>cobra\<close> has checked the number of arguments. Every invocation
  is a new process with a newly seeded generator.
\<close>

datatype command =
    Create string string string string string
  | Roll string
  | List
  | Show string
  | Delete string
  | Dice string go_int

fun execute :: "command \<Rightarrow> RandomSource \<Rightarrow> Store \<Rightarrow> Store \<times> (error + out list)" where
  "execute (Create name a1 a2 a3 a4) rng st = createCmd name a1 a2 a3 a4 st"
| "execute (Roll name) rng st = (case rollCmd name st rng of (st', _, res) \<Rightarrow> (st', res))"
| "execute List rng st = listCmd st"
| "execute (Show name) rng st = showCmd name st"
| "execute (Delete name) rng st = deleteCmd name st"
| "execute (Dice diceType shiftv) rng st = (st, snd (diceCmd diceType shiftv rng))"

fun executeAll :: "(command \<times> RandomSource) list \<Rightarrow> Store \<Rightarrow> Store" where
  "executeAll [] st = st"
| "executeAll ((c, rng) # rest) st = executeAll rest (fst (execute c rng st))"

text \<open>Reading the state of a name, as \<open>showCmd\<close> and \<open>listCmd\<close> do: bucket, then key.\<close>

definition readState :: "string \<Rightarrow> Store \<Rightarrow> State option" where
  "readState name st = (case statesBucket st of None \<Rightarrow> None | Some b \<Rightarrow> b name)"

text \<open>
  The raw roll that the output of a command shows (the line \<open>Roll: %d\<close>), and, along a
  sequence of invocations, the raw roll of the last completed roll of each name since
  the name was last created. The second is bookkeeping beside the stores, to say what
  \<open>LastRoll\<close> is compared with.
\<close>

definition rollOf :: "out \<Rightarrow> go_int option" where
  "rollOf line = (case line of RollLine r \<Rightarrow> Some r | _ \<Rightarrow> None)"

definition printedRoll :: "out list \<Rightarrow> go_int option" where
  "printedRoll outs = (case List.map_filter rollOf outs of [] \<Rightarrow> None | r # _ \<Rightarrow> Some r)"

fun recordDraw ::
  "command \<Rightarrow> error + out list \<Rightarrow> (string \<rightharpoonup> go_int) \<Rightarrow> (string \<rightharpoonup> go_int)" where
  "recordDraw (Roll name) (Inr outs) drawn = drawn(name := printedRoll outs)"
| "recordDraw (Create name a1 a2 a3 a4) (Inr outs) drawn = drawn(name := None)"
| "recordDraw c res drawn = drawn"

fun executeTrace ::
  "(command \<times> RandomSource) list \<Rightarrow> Store \<times> (string \<rightharpoonup> go_int)
     \<Rightarrow> Store \<times> (string \<rightharpoonup> go_int)" where
  "executeTrace [] sd = sd"
| "executeTrace ((c, rng) # rest) sd =
     executeTrace rest
       (fst (execute c rng (fst sd)), recordDraw c (snd (execute c rng (fst sd))) (snd sd))"

section \<open>Facts about the random source and signed arithmetic\<close>

lemma sint_intnValue:
  fixes n :: go_int
  assumes "0 <s n"
  shows "sint (intnValue n rng) = int (shd rng mod nat (sint n))"
proof -
  have pos: "0 < sint n" using assms by (simp add: word_sless_alt)
  have ub: "sint n < 2 ^ 63" using sint_lt [of n] by simp
  have "int (shd rng mod nat (sint n)) < sint n" using pos by (simp add: zmod_int)
  hence lt: "int (shd rng mod nat (sint n)) < 2 ^ 63" using ub by linarith
  show ?thesis
    unfolding intnValue_def using lt
    by (simp add: signed_of_nat signed_take_bit_int_eq_self)
qed

lemma intnValue_range:
  fixes n :: go_int
  assumes "0 <s n"
  shows "0 \<le> sint (intnValue n rng) \<and> sint (intnValue n rng) < sint n"
  using assms by (simp add: sint_intnValue word_sless_alt zmod_int)

lemma sint_succ:
  fixes v :: go_int
  assumes "sint v < 2 ^ 63 - 1"
  shows "sint (v + 1) = sint v + 1"
proof -
  have lb: "- (2 ^ 63) \<le> sint v" using sint_ge [of v] by simp
  show ?thesis
    using assms lb by (simp add: sint_word_ariths signed_take_bit_int_eq_self)
qed

lemma sint_intnValue_succ:
  fixes n :: go_int
  assumes "0 <s n"
  shows "sint (intnValue n rng + 1) = int (shd rng mod nat (sint n)) + 1"
proof -
  have ub: "sint n < 2 ^ 63" using sint_lt [of n] by simp
  have "sint (intnValue n rng) < sint n" using intnValue_range [OF assms] by simp
  hence "sint (intnValue n rng) < 2 ^ 63 - 1" using ub by linarith
  thus ?thesis by (simp add: sint_succ sint_intnValue [OF assms])
qed

lemma intnValue_succ_range:
  fixes n :: go_int
  assumes "0 <s n"
  shows "1 \<le> sint (intnValue n rng + 1) \<and> sint (intnValue n rng + 1) \<le> sint n"
proof -
  have "0 < sint n" using assms by (simp add: word_sless_alt)
  hence "int (shd rng mod nat (sint n)) < sint n" by (simp add: zmod_int)
  thus ?thesis by (simp add: sint_intnValue_succ [OF assms])
qed

lemma intnValue_succ_pos:
  fixes n :: go_int
  assumes "0 <s n"
  shows "0 <s intnValue n rng + 1"
  using intnValue_succ_range [OF assms, of rng] by (simp add: word_sless_alt)

lemma Intn_pos: "0 <s n \<Longrightarrow> Intn n rng = Inr (intnValue n rng, stl rng)"
  by (simp add: Intn_def word_sless_alt word_sle_eq)

lemma Intn_panic_iff: "Intn n rng = Inl e \<longleftrightarrow> n \<le>s 0 \<and> e = IntnPanic"
  by (auto simp: Intn_def)

lemma hundred_pos: "(0 :: go_int) <s 100"
  by (simp add: word_sless_alt)

lemma Intn_100: "Intn 100 rng = Inr (intnValue 100 rng, stl rng)"
  by (simp add: Intn_pos hundred_pos)

lemma roll_range:
  "sint (intnValue 100 rng + 1) = int (shd rng mod 100) + 1 \<and>
   1 \<le> sint (intnValue 100 rng + 1) \<and> sint (intnValue 100 rng + 1) \<le> 100"
  using sint_intnValue_succ [OF hundred_pos, of rng] intnValue_succ_range [OF hundred_pos, of rng]
  by simp

lemma sint_capChance: "sint (capChance e) = min 100 (sint e)"
  by (simp add: capChance_def word_sless_alt min_def)

section \<open>Facts about the decision roll\<close>

lemma applyVariance_on:
  assumes "0 <s Variance config"
  shows "applyVariance config e rng =
           Inr (if intnValue (intnValue (Variance config) rng + 1) (stl rng) = 0
                then e + Grace config else e, stl (stl rng))"
  using assms intnValue_succ_pos [OF assms, of rng]
  by (simp add: applyVariance_def Intn_pos Let_def)

lemma applyVariance_off:
  assumes "\<not> 0 <s Variance config"
  shows "applyVariance config e rng = Inr (e, rng)"
  using assms by (simp add: applyVariance_def)

lemma applyVariance_total:
  "\<exists>e1 rng1. applyVariance config e rng = Inr (e1, rng1) \<and> (e1 = e \<or> e1 = e + Grace config)"
proof (cases "0 <s Variance config")
  case True
  show ?thesis by (simp add: applyVariance_on [OF True])
next
  case False
  show ?thesis by (simp add: applyVariance_off [OF False])
qed

lemma decisionRoll_after_variance:
  assumes "applyVariance config (Chance config + PityCounter state * Grace config) rng
             = Inr (e1, rng1)"
  shows "decisionRoll config state rng =
           Inr (\<lparr>PityCounter =
                    (if intnValue 100 rng1 + 1 \<le>s capChance e1 then 0
                     else if PityCounter state <s Pity config then PityCounter state + 1
                     else PityCounter state),
                  LastRoll = intnValue 100 rng1 + 1\<rparr>,
                \<lparr>baseChance = Chance config,
                  pityBefore = PityCounter state,
                  graceBonus = PityCounter state * Grace config,
                  effectiveChance = capChance e1,
                  roll = intnValue 100 rng1 + 1,
                  success = (intnValue 100 rng1 + 1 \<le>s capChance e1)\<rparr>,
                stl rng1)"
  using assms by (simp add: decisionRoll_def Intn_100 Let_def)

lemma decisionRoll_closed:
  "decisionRoll config state rng =
     (let e1 = (if 0 <s Variance config \<and>
                   intnValue (intnValue (Variance config) rng + 1) (stl rng) = 0
                then Chance config + PityCounter state * Grace config + Grace config
                else Chance config + PityCounter state * Grace config);
          rng1 = (if 0 <s Variance config then stl (stl rng) else rng)
      in Inr (\<lparr>PityCounter =
                    (if intnValue 100 rng1 + 1 \<le>s capChance e1 then 0
                     else if PityCounter state <s Pity config then PityCounter state + 1
                     else PityCounter state),
                  LastRoll = intnValue 100 rng1 + 1\<rparr>,
                \<lparr>baseChance = Chance config,
                  pityBefore = PityCounter state,
                  graceBonus = PityCounter state * Grace config,
                  effectiveChance = capChance e1,
                  roll = intnValue 100 rng1 + 1,
                  success = (intnValue 100 rng1 + 1 \<le>s capChance e1)\<rparr>,
                stl rng1))"
proof (cases "0 <s Variance config")
  case True
  show ?thesis
    using True
    by (simp add: decisionRoll_after_variance [OF applyVariance_on [OF True]] Let_def)
next
  case False
  show ?thesis
    using False
    by (simp add: decisionRoll_after_variance [OF applyVariance_off [OF False]] Let_def)
qed

lemma sint_sum_fits:
  fixes a b c d :: go_int
  assumes "- (2 ^ 63) \<le> sint a + sint b * sint c + sint d"
      and "sint a + sint b * sint c + sint d < 2 ^ 63"
  shows "sint (a + b * c + d) = sint a + sint b * sint c + sint d"
proof -
  have "a + b * c + d = word_of_int (sint a + sint b * sint c + sint d)"
    by simp
  hence "sint (a + b * c + d) = signed_take_bit 63 (sint a + sint b * sint c + sint d)"
    by (simp only: sint_sbintrunc') simp
  thus ?thesis using assms by (simp add: signed_take_bit_int_eq_self)
qed

section \<open>Facts about the dice command\<close>

lemma of_char_lowerChar:
  "(of_char (lowerChar c) :: nat) =
     (if 65 \<le> (of_char c :: nat) \<and> (of_char c :: nat) \<le> 90 then of_char c + 32
      else of_char c)"
  by (simp add: lowerChar_def Let_def)

lemma char_eq_nat: "(c = d) = ((of_char c :: nat) = of_char d)"
  by simp

lemma lowerChar_d: "lowerChar c = CHR ''d'' \<longleftrightarrow> c = CHR ''d'' \<or> c = CHR ''D''"
  unfolding char_eq_nat [of _ "CHR ''d''"] char_eq_nat [of _ "CHR ''D''"] of_char_lowerChar
  by auto

lemma lowerChar_digit:
  assumes "48 \<le> (of_char x :: nat)" "(of_char x :: nat) \<le> 57"
  shows "lowerChar c = x \<longleftrightarrow> c = x"
  unfolding char_eq_nat [of _ x] of_char_lowerChar
  using assms by auto

lemmas lowerChar_digits =
  lowerChar_digit [of "CHR ''0''", simplified] lowerChar_digit [of "CHR ''1''", simplified]
  lowerChar_digit [of "CHR ''2''", simplified] lowerChar_digit [of "CHR ''4''", simplified]
  lowerChar_digit [of "CHR ''5''", simplified] lowerChar_digit [of "CHR ''6''", simplified]
  lowerChar_digit [of "CHR ''8''", simplified]

lemma lower_d4: "map lowerChar t = ''d4'' \<longleftrightarrow> t = ''d4'' \<or> t = ''D4''"
  by (auto simp: map_eq_Cons_conv lowerChar_d lowerChar_digits)

lemma lower_d5: "map lowerChar t = ''d5'' \<longleftrightarrow> t = ''d5'' \<or> t = ''D5''"
  by (auto simp: map_eq_Cons_conv lowerChar_d lowerChar_digits)

lemma lower_d6: "map lowerChar t = ''d6'' \<longleftrightarrow> t = ''d6'' \<or> t = ''D6''"
  by (auto simp: map_eq_Cons_conv lowerChar_d lowerChar_digits)

lemma lower_d8: "map lowerChar t = ''d8'' \<longleftrightarrow> t = ''d8'' \<or> t = ''D8''"
  by (auto simp: map_eq_Cons_conv lowerChar_d lowerChar_digits)

lemma lower_d10: "map lowerChar t = ''d10'' \<longleftrightarrow> t = ''d10'' \<or> t = ''D10''"
  by (auto simp: map_eq_Cons_conv lowerChar_d lowerChar_digits)

lemma lower_d12: "map lowerChar t = ''d12'' \<longleftrightarrow> t = ''d12'' \<or> t = ''D12''"
  by (auto simp: map_eq_Cons_conv lowerChar_d lowerChar_digits)

lemma lower_d20: "map lowerChar t = ''d20'' \<longleftrightarrow> t = ''d20'' \<or> t = ''D20''"
  by (auto simp: map_eq_Cons_conv lowerChar_d lowerChar_digits)

lemma lower_d100: "map lowerChar t = ''d100'' \<longleftrightarrow> t = ''d100'' \<or> t = ''D100''"
  by (auto simp: map_eq_Cons_conv lowerChar_d lowerChar_digits)

lemmas lower_dice =
  lower_d4 lower_d5 lower_d6 lower_d8 lower_d10 lower_d12 lower_d20 lower_d100

lemma diceSides_table: "diceSides t = map_of diceTable (map lowerChar t)"
  unfolding diceTable_def diceSides_def map_of.simps fun_upd_apply fst_conv snd_conv lower_dice
  by simp

lemma diceSides_values:
  assumes "diceSides t = Some sides"
  shows "sides \<in> {4, 5, 6, 8, 10, 12, 20, 100}"
  using assms by (auto simp: diceSides_def split: if_splits)

lemma diceSides_pos:
  assumes "diceSides t = Some sides"
  shows "0 <s sides"
  using diceSides_values [OF assms] by (auto simp: word_sless_alt)

lemma diceCmd_ok:
  assumes "diceSides t = Some sides"
  shows "diceCmd t shiftv rng =
           (stl rng,
            Inr ([RollingDiceLine t, RollLine (intnValue sides rng + 1)] @
                 (if shiftv \<noteq> 0
                  then [ShiftedResultLine (intnValue sides rng + 1 + shiftv) shiftv,
                        ShiftedRangeLine t (1 + shiftv) (sides + shiftv)]
                  else [StandardRangeLine t sides])))"
  using assms by (simp add: diceCmd_def Intn_pos [OF diceSides_pos [OF assms]] Let_def)

section \<open>Facts about the commands and the stores\<close>

lemma createCmd_ok:
  assumes "createCmd name a1 a2 a3 a4 st = (st', Inr outs)"
  shows "\<exists>chance grace pity variance.
           Atoi a1 = Some chance \<and> Atoi a2 = Some grace \<and> Atoi a3 = Some pity \<and>
           Atoi a4 = Some variance \<and> validate chance grace pity variance = None \<and>
           name \<noteq> [] \<and> butlast (configPath st name) \<in> set (dirs st) \<and>
           configDir st' = configDir st \<and> dirs st' = dirs st \<and>
           configFiles st' =
             AList.update (configPath st name)
               \<lparr>Name = name, Chance = chance, Grace = grace, Pity = pity,
                  Variance = variance\<rparr> (configFiles st) \<and>
           statesBucket st' =
             Some ((case statesBucket st of None \<Rightarrow> Map.empty | Some b \<Rightarrow> b)
                     (name \<mapsto> \<lparr>PityCounter = 0, LastRoll = 0\<rparr>))"
  using assms
  by (auto simp: createCmd_def Let_def split: option.splits if_splits)

lemma createCmd_failed:
  assumes "createCmd name a1 a2 a3 a4 st = (st', Inl e)"
  shows "statesBucket st' = statesBucket st"
  using assms
  by (auto simp: createCmd_def Let_def split: option.splits if_splits)

lemma createCmd_configDir: "configDir (fst (createCmd n a1 a2 a3 a4 st)) = configDir st"
  by (auto simp: createCmd_def Let_def split: option.splits)

lemma deleteCmd_configDir: "configDir (fst (deleteCmd n st)) = configDir st"
  by (auto simp: deleteCmd_def split: option.splits)

lemma configPath_cong: "configDir st' = configDir st \<Longrightarrow> configPath st' name = configPath st name"
  by (simp add: configPath_def)

lemma createCmd_other_config:
  assumes "configPath st n \<noteq> configPath st name"
  shows "loadConfig name (fst (createCmd n a1 a2 a3 a4 st)) = loadConfig name st"
proof -
  have p: "configPath (fst (createCmd n a1 a2 a3 a4 st)) name = configPath st name"
    by (rule configPath_cong [OF createCmd_configDir])
  have "map_of (configFiles (fst (createCmd n a1 a2 a3 a4 st))) (configPath st name)
          = map_of (configFiles st) (configPath st name)"
    using assms
    by (auto simp: createCmd_def Let_def update_conv' split: option.splits)
  thus ?thesis by (simp add: loadConfig_def p)
qed

lemma deleteCmd_other_config:
  assumes "configPath st n \<noteq> configPath st name"
  shows "loadConfig name (fst (deleteCmd n st)) = loadConfig name st"
proof -
  have p: "configPath (fst (deleteCmd n st)) name = configPath st name"
    by (rule configPath_cong [OF deleteCmd_configDir])
  have "map_of (configFiles (fst (deleteCmd n st))) (configPath st name)
          = map_of (configFiles st) (configPath st name)"
    using assms
    by (auto simp: deleteCmd_def delete_conv' split: option.splits)
  thus ?thesis by (simp add: loadConfig_def p)
qed

lemma rollCmd_configs: "configFiles (fst (rollCmd name st rng)) = configFiles st"
  by (auto simp: rollCmd_def split: option.splits sum.splits)

lemma rollCmd_ok:
  assumes "rollCmd name st rng = (st', rng', Inr outs)"
  shows "\<exists>config b state state' rep.
           loadConfig name st = Some config \<and> statesBucket st = Some b \<and>
           b name = Some state \<and>
           decisionRoll config state rng = Inr (state', rep, rng') \<and>
           st' = st\<lparr>statesBucket := Some (b(name \<mapsto> state'))\<rparr> \<and>
           outs = [RollingLine name, BaseChanceLine (baseChance rep),
                   PityCounterLine (pityBefore rep), GraceBonusLine (graceBonus rep),
                   EffectiveChanceLine (effectiveChance rep), RollLine (roll rep),
                   if success rep then SuccessLine else FailedLine]"
  using assms
  by (auto simp: rollCmd_def split: option.splits sum.splits split del: if_split)

lemma rollCmd_failed:
  assumes "rollCmd name st rng = (st', rng', Inl e)"
  shows "st' = st"
  using assms
  by (auto simp: rollCmd_def split: option.splits sum.splits)

lemma printedRoll_roll:
  "printedRoll [RollingLine name, BaseChanceLine a, PityCounterLine b, GraceBonusLine c,
                EffectiveChanceLine d, RollLine r, l] = Some r"
  by (simp add: printedRoll_def List.map_filter_simps rollOf_def)

lemma decisionRoll_last_roll:
  assumes "decisionRoll config state rng = Inr (state', rep, rng')"
  shows "LastRoll state' = roll rep \<and> 1 \<le> sint (roll rep) \<and> sint (roll rep) \<le> 100"
proof -
  let ?rng1 = "if 0 <s Variance config then stl (stl rng) else rng"
  show ?thesis
    using assms roll_range [of ?rng1]
    by (auto simp: decisionRoll_closed Let_def)
qed

text \<open>
  The invariant of the stores along a sequence of invocations: a stored state has
  \<open>LastRoll = 0\<close> while no roll of its name is recorded, and otherwise the recorded raw
  roll, which lies in \<open>[1, 100]\<close>.
\<close>

lemma step_keeps_last_roll:
  assumes inv: "\<And>n s. readState n st = Some s \<Longrightarrow>
                  (case drawn n of None \<Rightarrow> LastRoll s = 0
                   | Some r \<Rightarrow> LastRoll s = r \<and> 1 \<le> sint r \<and> sint r \<le> 100)"
      and rd: "readState n (fst (execute c rng st)) = Some s"
  shows "(case recordDraw c (snd (execute c rng st)) drawn n of None \<Rightarrow> LastRoll s = 0
          | Some r \<Rightarrow> LastRoll s = r \<and> 1 \<le> sint r \<and> sint r \<le> 100)"
proof (cases c)
  case (Create name a1 a2 a3 a4)
  obtain st' res where ex: "createCmd name a1 a2 a3 a4 st = (st', res)" by force
  show ?thesis
  proof (cases res)
    case (Inl e)
    have "statesBucket st' = statesBucket st"
      using createCmd_failed ex Inl by blast
    hence "readState n st = Some s" using rd Create ex by (simp add: readState_def)
    thus ?thesis using inv Create ex Inl by simp
  next
    case (Inr outs)
    from createCmd_ok [OF ex [unfolded Inr]] have
      st': "statesBucket st' =
              Some ((case statesBucket st of None \<Rightarrow> Map.empty | Some b \<Rightarrow> b)
                      (name \<mapsto> \<lparr>PityCounter = 0, LastRoll = 0\<rparr>))"
      by blast
    show ?thesis
    proof (cases "n = name")
      case True
      thus ?thesis using rd Create ex Inr st' by (auto simp: readState_def)
    next
      case False
      hence "readState n st = Some s"
        using rd Create ex st' by (auto simp: readState_def split: option.splits)
      thus ?thesis using inv False Create ex Inr by simp
    qed
  qed
next
  case (Roll name)
  obtain st' rng' res where ex: "rollCmd name st rng = (st', rng', res)"
    by (metis prod_cases3)
  show ?thesis
  proof (cases res)
    case (Inl e)
    have "st' = st" using rollCmd_failed ex Inl by blast
    thus ?thesis using inv rd Roll ex Inl by simp
  next
    case (Inr outs)
    from rollCmd_ok [OF ex [unfolded Inr]] obtain config b state state' rep where
      b: "statesBucket st = Some b"
      and dr: "decisionRoll config state rng = Inr (state', rep, rng')"
      and st': "st' = st\<lparr>statesBucket := Some (b(name \<mapsto> state'))\<rparr>"
      and outs: "outs = [RollingLine name, BaseChanceLine (baseChance rep),
                   PityCounterLine (pityBefore rep), GraceBonusLine (graceBonus rep),
                   EffectiveChanceLine (effectiveChance rep), RollLine (roll rep),
                   if success rep then SuccessLine else FailedLine]"
      by blast
    have pr: "printedRoll outs = Some (roll rep)"
      unfolding outs by (rule printedRoll_roll)
    show ?thesis
    proof (cases "n = name")
      case True
      hence "s = state'" using rd Roll ex st' by (simp add: readState_def)
      thus ?thesis
        using decisionRoll_last_roll [OF dr] True Roll ex Inr pr by simp
    next
      case False
      hence "readState n st = Some s"
        using rd Roll ex st' b by (simp add: readState_def)
      thus ?thesis using inv False Roll ex Inr by simp
    qed
  qed
next
  case List
  thus ?thesis using inv rd by (simp add: listCmd_def)
next
  case (Show name)
  have "fst (showCmd name st) = st"
    by (auto simp: showCmd_def split: option.splits)
  thus ?thesis using inv rd Show by simp
next
  case (Delete name)
  have "readState n st = Some s"
    using rd Delete
    by (auto simp: deleteCmd_def readState_def split: option.splits if_splits)
  thus ?thesis using inv Delete by simp
next
  case (Dice t sh)
  thus ?thesis using inv rd by simp
qed

lemma trace_keeps_last_roll:
  assumes "\<And>n s. readState n (fst sd) = Some s \<Longrightarrow>
                  (case snd sd n of None \<Rightarrow> LastRoll s = 0
                   | Some r \<Rightarrow> LastRoll s = r \<and> 1 \<le> sint r \<and> sint r \<le> 100)"
      and "readState n (fst (executeTrace cmds sd)) = Some s"
  shows "(case snd (executeTrace cmds sd) n of None \<Rightarrow> LastRoll s = 0
          | Some r \<Rightarrow> LastRoll s = r \<and> 1 \<le> sint r \<and> sint r \<le> 100)"
  using assms
proof (induction cmds arbitrary: sd n s)
  case Nil
  thus ?case by simp
next
  case (Cons cr cmds)
  obtain c rng where cr: "cr = (c, rng)" by force
  let ?sd' = "(fst (execute c rng (fst sd)), recordDraw c (snd (execute c rng (fst sd))) (snd sd))"
  have step: "\<And>n s. readState n (fst ?sd') = Some s \<Longrightarrow>
                  (case snd ?sd' n of None \<Rightarrow> LastRoll s = 0
                   | Some r \<Rightarrow> LastRoll s = r \<and> 1 \<le> sint r \<and> sint r \<le> 100)"
    using step_keeps_last_roll [of "fst sd" "snd sd" _ c rng] Cons.prems(1) by simp
  show ?case
    using Cons.IH [of ?sd' n s, OF step] Cons.prems(2) cr by simp
qed

lemma executeTrace_store: "fst (executeTrace cmds sd) = executeAll cmds (fst sd)"
  by (induction cmds arbitrary: sd) auto

lemmas run_simps =
  createCmd_def Atoi_def digitVal_def validate_def emptyStore_def rollCmd_def loadConfig_def
  decisionRoll_closed capChance_def intnValue_def showCmd_def deleteCmd_def readState_def
  configPath_def cleanStep_def word_sless_alt word_sle_eq Let_def

section \<open>The decision engine\<close>

text \<open>
  Claim C1 fails as stated: the sum is computed in Go's \<open>int\<close> and wraps around. After
  \<open>create q 50 9223372036854775807 0 1\<close> the variance bonus always triggers; the first
  roll prints the effective chance \<open>-9223372036854775759\<close> and fails with a raw roll of
  1, where the sum capped at 100 is 100 and a roll of 1 would succeed.
\<close>

theorem roll_effective_chance_wraps_around:
  "snd (snd (rollCmd ''q''
               (executeAll [(Create ''q'' ''50'' ''9223372036854775807'' ''0'' ''1'', sconst 0)]
                  (emptyStore [''home'', ''user'']))
               (sconst 0)))
     = Inr [RollingLine ''q'', BaseChanceLine 50, PityCounterLine 0, GraceBonusLine 0,
            EffectiveChanceLine (- 9223372036854775759), RollLine 1, FailedLine] \<and>
   sint (- 9223372036854775759 :: go_int) = - 9223372036854775759 \<and>
   min 100 (50 + 0 * 9223372036854775807 + 9223372036854775807 :: int) = 100 \<and>
   (1 :: int) \<le> 100"
  by (simp add: run_simps)

text \<open>
  Claim C1, amended. Every decision roll returns. The raw roll is the next draw of the
  generator reduced to \<open>[1, 100]\<close>, the effective chance is at most 100, and the roll
  succeeds exactly when the raw roll is at most the effective chance. Whenever
  \<open>Chance + PityCounter * Grace\<close>, plus \<open>Grace\<close> once more when the variance bonus
  triggers, fits Go's \<open>int\<close>, the effective chance is that sum capped at 100, the cap
  coming after the variance bonus. In general the effective chance is the cap of the
  sum in Go's arithmetic, which wraps around.
\<close>

theorem roll_effective_chance_and_success:
  "\<exists>state' rep rng'.
     decisionRoll config state rng = Inr (state', rep, rng') \<and>
     (let triggered = (0 <s Variance config \<and>
                       intnValue (intnValue (Variance config) rng + 1) (stl rng) = 0);
          total = sint (Chance config) + sint (PityCounter state) * sint (Grace config)
                    + (if triggered then sint (Grace config) else 0);
          rng1 = (if 0 <s Variance config then stl (stl rng) else rng)
      in sint (roll rep) = int (shd rng1 mod 100) + 1 \<and>
         1 \<le> sint (roll rep) \<and> sint (roll rep) \<le> 100 \<and>
         sint (effectiveChance rep) \<le> 100 \<and>
         (success rep \<longleftrightarrow> sint (roll rep) \<le> sint (effectiveChance rep)) \<and>
         effectiveChance rep =
           capChance (Chance config + PityCounter state * Grace config
                        + (if triggered then Grace config else 0)) \<and>
         (fitsInt64 total \<longrightarrow>
            sint (effectiveChance rep) = min 100 total \<and>
            (success rep \<longleftrightarrow> sint (roll rep) \<le> min 100 total)))"
proof -
  let ?rng1 = "if 0 <s Variance config then stl (stl rng) else rng"
  have fits: "\<And>x. fitsInt64 (sint (Chance config)
                         + sint (PityCounter state) * sint (Grace config) + sint x) \<Longrightarrow>
        sint (Chance config + PityCounter state * Grace config + x) =
        sint (Chance config) + sint (PityCounter state) * sint (Grace config) + sint x"
    unfolding fitsInt64_def by (rule sint_sum_fits) simp_all
  show ?thesis
    using roll_range [of ?rng1] fits [of "Grace config"] fits [of 0]
    by (simp add: decisionRoll_closed Let_def sint_capChance word_sle_eq)
qed

text \<open>
  The second scenario of the specification: chance 0, grace 100, variance 1, and a
  generator whose draws are all 0. The sum 100 fits, the bonus applies, the effective
  chance is 100 and the roll of 1 succeeds.
\<close>

theorem roll_effective_chance_and_success_witness:
  "\<exists>state' rep rng'.
     decisionRoll \<lparr>Name = ''v'', Chance = 0, Grace = 100, Pity = 0, Variance = 1\<rparr>
       \<lparr>PityCounter = 0, LastRoll = 0\<rparr> (sconst 0) = Inr (state', rep, rng') \<and>
     fitsInt64 (0 + 0 * 100 + 100) \<and>
     sint (effectiveChance rep) = min 100 (0 + 0 * 100 + 100) \<and>
     sint (roll rep) = 1 \<and> success rep"
  using roll_effective_chance_and_success
    [of "\<lparr>Name = ''v'', Chance = 0, Grace = 100, Pity = 0, Variance = 1\<rparr>"
        "\<lparr>PityCounter = 0, LastRoll = 0\<rparr>" "sconst 0"]
  by (auto simp: Let_def fitsInt64_def intnValue_def word_sless_alt)

text \<open>
  Claim C2. With \<open>Variance > 0\<close> the variance mechanic draws \<open>v\<close> from \<open>[1, Variance]\<close>
  and then \<open>t\<close> from \<open>[1, v]\<close>, two draws of the generator, and adds \<open>Grace\<close> once more
  exactly when \<open>t = 1\<close>; with \<open>v = 1\<close> the bonus always triggers. Otherwise nothing is
  drawn for the variance and nothing is added: the roll itself is the only draw.
\<close>

theorem variance_two_stage_draw:
  "(0 <s Variance config \<longrightarrow>
      (let v = intnValue (Variance config) rng + 1;
           t = intnValue v (stl rng) + 1
       in sint v = int (shd rng mod nat (sint (Variance config))) + 1 \<and>
          1 \<le> sint v \<and> sint v \<le> sint (Variance config) \<and>
          sint t = int (shd (stl rng) mod nat (sint v)) + 1 \<and>
          1 \<le> sint t \<and> sint t \<le> sint v \<and>
          (v = 1 \<longrightarrow> t = 1) \<and>
          applyVariance config e rng
            = Inr (if t = 1 then e + Grace config else e, stl (stl rng)) \<and>
          (\<exists>state' rep.
             decisionRoll config state rng = Inr (state', rep, stl (stl (stl rng))) \<and>
             effectiveChance rep =
               capChance (if t = 1
                          then Chance config + PityCounter state * Grace config + Grace config
                          else Chance config + PityCounter state * Grace config)))) \<and>
   (\<not> 0 <s Variance config \<longrightarrow>
      applyVariance config e rng = Inr (e, rng) \<and>
      (\<exists>state' rep.
         decisionRoll config state rng = Inr (state', rep, stl rng) \<and>
         effectiveChance rep =
           capChance (Chance config + PityCounter state * Grace config)))"
proof (cases "0 <s Variance config")
  case True
  let ?v = "intnValue (Variance config) rng + 1"
  have vpos: "0 <s ?v" by (rule intnValue_succ_pos [OF True])
  have one: "?v = 1 \<Longrightarrow> intnValue ?v (stl rng) = 0"
    by (simp add: intnValue_def)
  show ?thesis
    using True sint_intnValue_succ [OF True, of rng] intnValue_succ_range [OF True, of rng]
      sint_intnValue_succ [OF vpos, of "stl rng"] intnValue_succ_range [OF vpos, of "stl rng"]
      one
    by (simp add: Let_def applyVariance_on [OF True] decisionRoll_closed)
next
  case False
  show ?thesis
    using False by (simp add: applyVariance_off [OF False] decisionRoll_closed Let_def)
qed


text \<open>
  Variance 1 forces \<open>v = 1\<close> and the bonus whatever the generator gives; variance 0
  leaves the chance and the generator as they are.
\<close>

theorem variance_two_stage_draw_witness:
  "0 <s Variance \<lparr>Name = ''v'', Chance = 0, Grace = 100, Pity = 0, Variance = 1\<rparr> \<and>
   intnValue 1 (sconst 7) + 1 = (1 :: go_int) \<and>
   applyVariance \<lparr>Name = ''v'', Chance = 0, Grace = 100, Pity = 0, Variance = 1\<rparr> 0 (sconst 7)
     = Inr (100, sconst 7) \<and>
   \<not> 0 <s Variance \<lparr>Name = ''w'', Chance = 10, Grace = 5, Pity = 3, Variance = 0\<rparr> \<and>
   applyVariance \<lparr>Name = ''w'', Chance = 10, Grace = 5, Pity = 3, Variance = 0\<rparr> 10 (sconst 7)
     = Inr (10, sconst 7)"
  using variance_two_stage_draw
    [of "\<lparr>Name = ''v'', Chance = 0, Grace = 100, Pity = 0, Variance = 1\<rparr>" "sconst 7" 0
        "\<lparr>PityCounter = 0, LastRoll = 0\<rparr>"]
    variance_two_stage_draw
    [of "\<lparr>Name = ''w'', Chance = 10, Grace = 5, Pity = 3, Variance = 0\<rparr>" "sconst 7" 10
        "\<lparr>PityCounter = 0, LastRoll = 0\<rparr>"]
  by (simp add: Let_def intnValue_def word_sless_alt)

text \<open>
  Claim C3. A roll that starts with the pity counter at most \<open>Pity\<close> sets it to 0 on
  success and to \<open>min (PityCounter + 1) Pity\<close> on failure; with \<open>Pity \<ge> 0\<close>, as every
  created configuration has it, the counter is at most \<open>Pity\<close> after the roll.
\<close>

theorem pity_counter_update:
  assumes "PityCounter state \<le>s Pity config"
  shows "\<exists>state' rep rng'.
           decisionRoll config state rng = Inr (state', rep, rng') \<and>
           (success rep \<longrightarrow> PityCounter state' = 0) \<and>
           (\<not> success rep \<longrightarrow>
              sint (PityCounter state') =
                min (sint (PityCounter state) + 1) (sint (Pity config))) \<and>
           (0 \<le>s Pity config \<longrightarrow> PityCounter state' \<le>s Pity config)"
proof -
  have le: "sint (PityCounter state) \<le> sint (Pity config)"
    using assms by (simp add: word_sle_eq)
  have ub: "sint (Pity config) < 2 ^ 63" using sint_lt [of "Pity config"] by simp
  have inc: "PityCounter state <s Pity config \<Longrightarrow>
             sint (PityCounter state + 1) = sint (PityCounter state) + 1"
    using ub by (intro sint_succ) (simp add: word_sless_alt)
  show ?thesis
    using le inc
    by (auto simp: decisionRoll_closed Let_def word_sle_eq word_sless_alt min_def)
qed

text \<open>
  The first scenario of the specification at the cap: with the counter at 3 of 3, a
  failing roll leaves it at 3 and a successful roll resets it to 0.
\<close>

theorem pity_counter_update_witness:
  "PityCounter \<lparr>PityCounter = 3, LastRoll = 100\<rparr>
     \<le>s Pity \<lparr>Name = ''test'', Chance = 10, Grace = 5, Pity = 3, Variance = 0\<rparr> \<and>
   0 \<le>s Pity \<lparr>Name = ''test'', Chance = 10, Grace = 5, Pity = 3, Variance = 0\<rparr> \<and>
   (\<exists>state' rep rng'.
      decisionRoll \<lparr>Name = ''test'', Chance = 10, Grace = 5, Pity = 3, Variance = 0\<rparr>
        \<lparr>PityCounter = 3, LastRoll = 100\<rparr> (sconst 99) = Inr (state', rep, rng') \<and>
      \<not> success rep \<and> sint (PityCounter state') = 3) \<and>
   (\<exists>state' rep rng'.
      decisionRoll \<lparr>Name = ''test'', Chance = 10, Grace = 5, Pity = 3, Variance = 0\<rparr>
        \<lparr>PityCounter = 3, LastRoll = 100\<rparr> (sconst 0) = Inr (state', rep, rng') \<and>
      success rep \<and> PityCounter state' = 0)"
proof -
  let ?c = "\<lparr>Name = ''test'', Chance = 10, Grace = 5, Pity = 3, Variance = 0\<rparr>"
  let ?s = "\<lparr>PityCounter = 3, LastRoll = 100\<rparr>"
  have h: "PityCounter ?s \<le>s Pity ?c" by (simp add: word_sle_eq)
  have f: "success (fst (snd (projr (decisionRoll ?c ?s (sconst 99))))) = False"
    by (simp add: decisionRoll_closed Let_def capChance_def intnValue_def word_sle_eq
        word_sless_alt)
  have s: "success (fst (snd (projr (decisionRoll ?c ?s (sconst 0))))) = True"
    by (simp add: decisionRoll_closed Let_def capChance_def intnValue_def word_sle_eq
        word_sless_alt)
  show ?thesis
    using h f s pity_counter_update [OF h, of "sconst 99"] pity_counter_update [OF h, of "sconst 0"]
    by (auto simp: word_sle_eq)
qed

text \<open>
  Claim C10. For a configuration that passes the checks of \<open>create\<close>, every call of
  \<open>rand.Intn\<close> during a roll has a positive bound: \<open>Variance\<close> under the guard
  \<open>Variance > 0\<close>, then \<open>varianceRoll \<ge> 1\<close>, then 100. Without the guard no variance
  draw is made. \<open>rand.Intn\<close> fails exactly on a bound that is not positive, and the
  roll never fails.
\<close>

theorem roll_draws_have_positive_range:
  assumes "validConfig config"
  shows "(0 <s Variance config \<longrightarrow>
            (\<exists>v rng1 t rng2.
               Intn (Variance config) rng = Inr (v, rng1) \<and>
               1 \<le> sint (v + 1) \<and>
               Intn (v + 1) rng1 = Inr (t, rng2))) \<and>
         (\<not> 0 <s Variance config \<longrightarrow>
            Variance config = 0 \<and> applyVariance config e rng = Inr (e, rng)) \<and>
         (\<exists>r rng2. Intn 100 rng3 = Inr (r, rng2)) \<and>
         (\<forall>n g. (\<exists>err. Intn n g = Inl err) = (n \<le>s 0)) \<and>
         (\<exists>res. decisionRoll config state rng = Inr res)"
proof -
  have v0: "Variance config = 0" if "\<not> 0 <s Variance config"
  proof -
    have "\<not> Variance config <s 0"
      using assms by (auto simp: validConfig_def validate_def split: if_splits)
    hence "sint (Variance config) = 0"
      using that by (simp add: word_sless_alt)
    hence "word_of_int (sint (Variance config)) = (word_of_int 0 :: go_int)"
      by (rule arg_cong)
    thus ?thesis by simp
  qed
  have dr: "\<exists>res. decisionRoll config state rng = Inr res"
    by (simp add: decisionRoll_closed Let_def)
  have pan: "\<forall>n g. (\<exists>err. Intn n g = Inl err) = (n \<le>s 0)"
    by (simp add: Intn_def)
  have on: "0 <s Variance config \<Longrightarrow>
            (\<exists>v rng1 t rng2.
               Intn (Variance config) rng = Inr (v, rng1) \<and>
               1 \<le> sint (v + 1) \<and>
               Intn (v + 1) rng1 = Inr (t, rng2))"
    using intnValue_succ_range [of "Variance config" rng]
      intnValue_succ_pos [of "Variance config" rng]
    by (simp add: Intn_pos)
  show ?thesis
    using v0 dr pan on by (simp add: applyVariance_off Intn_100)
qed

text \<open>
  Two configurations that \<open>create\<close> accepts, one with the variance draw and one without.
\<close>

theorem roll_draws_have_positive_range_witness:
  "validConfig \<lparr>Name = ''v'', Chance = 0, Grace = 100, Pity = 0, Variance = 1\<rparr> \<and>
   0 <s Variance \<lparr>Name = ''v'', Chance = 0, Grace = 100, Pity = 0, Variance = 1\<rparr> \<and>
   validConfig \<lparr>Name = ''test'', Chance = 10, Grace = 5, Pity = 3, Variance = 0\<rparr> \<and>
   \<not> 0 <s Variance \<lparr>Name = ''test'', Chance = 10, Grace = 5, Pity = 3, Variance = 0\<rparr> \<and>
   (\<exists>res. decisionRoll \<lparr>Name = ''v'', Chance = 0, Grace = 100, Pity = 0, Variance = 1\<rparr>
             \<lparr>PityCounter = 0, LastRoll = 0\<rparr> (sconst 0) = Inr res) \<and>
   (\<exists>res. decisionRoll \<lparr>Name = ''test'', Chance = 10, Grace = 5, Pity = 3, Variance = 0\<rparr>
             \<lparr>PityCounter = 0, LastRoll = 0\<rparr> (sconst 99) = Inr res)"
proof -
  let ?v = "\<lparr>Name = ''v'', Chance = 0, Grace = 100, Pity = 0, Variance = 1\<rparr>"
  let ?t = "\<lparr>Name = ''test'', Chance = 10, Grace = 5, Pity = 3, Variance = 0\<rparr>"
  have hv: "validConfig ?v" by (simp add: validConfig_def validate_def word_sless_alt)
  have ht: "validConfig ?t" by (simp add: validConfig_def validate_def word_sless_alt)
  show ?thesis
    using hv ht
      roll_draws_have_positive_range [OF hv, of "sconst 0" 0 "sconst 0" "\<lparr>PityCounter = 0, LastRoll = 0\<rparr>"]
      roll_draws_have_positive_range [OF ht, of "sconst 99" 0 "sconst 0" "\<lparr>PityCounter = 0, LastRoll = 0\<rparr>"]
    by (simp add: word_sless_alt)
qed

section \<open>The dice command\<close>

text \<open>
  Claim C8. The switch of \<open>diceCmd\<close> is the lookup of the lower-cased dice type in the
  table \<open>d4\<close>, \<open>d5\<close>, \<open>d6\<close>, \<open>d8\<close>, \<open>d10\<close>, \<open>d12\<close>, \<open>d20\<close>, \<open>d100\<close>: the sides it accepts
  are exactly 4, 5, 6, 8, 10, 12, 20 and 100, each of them is accepted, an accepted type
  is rolled, and every other type ends with \<open>InvalidDiceType\<close> and the generator
  untouched.
\<close>

theorem dice_types_accepted:
  "diceSides diceType = map_of diceTable (map lowerChar diceType) \<and>
   (\<forall>sides. diceSides diceType = Some sides \<longrightarrow>
      sides \<in> {4, 5, 6, 8, 10, 12, 20, 100} \<and>
      (\<exists>outs. diceCmd diceType shiftv rng = (stl rng, Inr outs))) \<and>
   (\<forall>sides \<in> {4, 5, 6, 8, 10, 12, 20, 100}. \<exists>t. diceSides t = Some sides) \<and>
   (diceSides diceType = None \<longrightarrow>
      diceCmd diceType shiftv rng = (rng, Inl InvalidDiceType))"
proof -
  have acc: "\<forall>sides \<in> {4, 5, 6, 8, 10, 12, 20, 100}. \<exists>t. diceSides t = Some sides"
  proof -
    have "diceSides ''d4'' = Some 4" "diceSides ''d5'' = Some 5" "diceSides ''d6'' = Some 6"
      "diceSides ''d8'' = Some 8" "diceSides ''d10'' = Some 10" "diceSides ''d12'' = Some 12"
      "diceSides ''d20'' = Some 20" "diceSides ''d100'' = Some 100"
      by (simp_all add: diceSides_def)
    thus ?thesis by blast
  qed
  have ok: "\<forall>sides. diceSides diceType = Some sides \<longrightarrow>
      sides \<in> {4, 5, 6, 8, 10, 12, 20, 100} \<and>
      (\<exists>outs. diceCmd diceType shiftv rng = (stl rng, Inr outs))"
    using diceSides_values diceCmd_ok by blast
  have bad: "diceSides diceType = None \<longrightarrow>
      diceCmd diceType shiftv rng = (rng, Inl InvalidDiceType)"
    by (simp add: diceCmd_def)
  show ?thesis using diceSides_table acc ok bad by blast
qed

text \<open>
  \<open>D20\<close> is accepted with 20 sides and rolled; \<open>d7\<close> and \<open>20\<close> are refused and nothing is
  drawn.
\<close>

theorem dice_types_accepted_witness:
  "diceSides ''D20'' = Some 20 \<and>
   (20 :: go_int) \<in> {4, 5, 6, 8, 10, 12, 20, 100} \<and>
   (\<exists>outs. diceCmd ''D20'' 0 (sconst 3) = (sconst 3, Inr outs)) \<and>
   diceSides ''d7'' = None \<and>
   diceCmd ''d7'' 0 (sconst 3) = (sconst 3, Inl InvalidDiceType)"
proof -
  have a: "diceSides ''D20'' = Some 20" by (simp add: diceSides_def)
  have b: "diceSides ''d7'' = None" by (simp add: diceSides_def)
  show ?thesis
    using a b dice_types_accepted [of "''D20''" 0 "sconst 3"]
      dice_types_accepted [of "''d7''" 0 "sconst 3"]
    by simp
qed

text \<open>
  Claim C9. For a supported dice type the raw roll is the next draw of the generator
  reduced to \<open>[1, sides]\<close>. It is the same for every shift: the shift appears only in the
  shifted result \<open>roll + shift\<close> and in the shifted range \<open>[1 + shift, sides + shift]\<close>,
  which are printed when the shift is not 0.
\<close>

theorem dice_roll_range_and_shift:
  assumes "diceSides diceType = Some sides"
  shows "\<exists>r. sint r = int (shd rng mod nat (sint sides)) + 1 \<and>
              1 \<le> sint r \<and> sint r \<le> sint sides \<and>
              (\<forall>shiftv.
                 diceCmd diceType shiftv rng =
                   (stl rng,
                    Inr ([RollingDiceLine diceType, RollLine r] @
                         (if shiftv \<noteq> 0
                          then [ShiftedResultLine (r + shiftv) shiftv,
                                ShiftedRangeLine diceType (1 + shiftv) (sides + shiftv)]
                          else [StandardRangeLine diceType sides]))))"
proof -
  have pos: "0 <s sides" by (rule diceSides_pos [OF assms])
  show ?thesis
    using sint_intnValue_succ [OF pos, of rng] intnValue_succ_range [OF pos, of rng]
      diceCmd_ok [OF assms, of _ rng]
    by (intro exI [of _ "intnValue sides rng + 1"]) simp
qed

text \<open>
  The third scenario of the specification: \<open>d6\<close> with the raw roll 4. With shift 10 the
  command prints the roll 4, the shifted result 14 and the range 11 to 16; with shift 0
  it prints the same roll and the range 1 to 6.
\<close>

theorem dice_roll_range_and_shift_witness:
  "diceSides ''d6'' = Some 6 \<and>
   diceCmd ''d6'' 10 (sconst 3) =
     (sconst 3, Inr [RollingDiceLine ''d6'', RollLine 4, ShiftedResultLine 14 10,
                     ShiftedRangeLine ''d6'' 11 16]) \<and>
   diceCmd ''d6'' 0 (sconst 3) =
     (sconst 3, Inr [RollingDiceLine ''d6'', RollLine 4, StandardRangeLine ''d6'' 6])"
proof -
  have a: "diceSides ''d6'' = Some 6" by (simp add: diceSides_def)
  obtain r where r: "sint r = int (shd (sconst (3::nat)) mod nat (sint (6 :: go_int))) + 1"
    and d: "\<forall>shiftv. diceCmd ''d6'' shiftv (sconst 3) =
                   (stl (sconst 3),
                    Inr ([RollingDiceLine ''d6'', RollLine r] @
                         (if shiftv \<noteq> 0
                          then [ShiftedResultLine (r + shiftv) shiftv,
                                ShiftedRangeLine ''d6'' (1 + shiftv) (6 + shiftv)]
                          else [StandardRangeLine ''d6'' 6])))"
    using dice_roll_range_and_shift [OF a, of "sconst 3"] by blast
  have "sint r = sint (4 :: go_int)" using r by simp
  hence r4: "r = 4" by (simp only: signed_word_eqI)
  show ?thesis using a d r4 by simp
qed

section \<open>The stores and the commands\<close>

text \<open>
  Claim C4, evaluated. A roll never prints an effective chance above 100. \<open>show\<close> does
  not cap the current chance it prints: after \<open>create x 50 30 3 0\<close> and two failed rolls
  the pity counter is 2 and \<open>show x\<close> prints a current chance of 110.
\<close>

theorem show_reports_chance_above_100:
  "(\<exists>state' rep rng'.
      decisionRoll config state rng = Inr (state', rep, rng') \<and>
      sint (effectiveChance rep) \<le> 100) \<and>
   snd (execute (Show ''x'') (sconst 0)
          (executeAll [(Create ''x'' ''50'' ''30'' ''3'' ''0'', sconst 0),
                       (Roll ''x'', sconst 99), (Roll ''x'', sconst 99)]
             (emptyStore [''home'', ''user''])))
     = Inr [ConfigurationLine ''x'', ShowBaseChanceLine 50, ShowGraceLine 30,
            MaxPityLine 3, VarianceLine 0 30, CurrentStateLine, ShowPityCounterLine 2,
            CurrentChanceLine 110, LastRollLine 100,
            ConfigFileLine [''home'', ''user'', ''.roll'', ''x.toml'']] \<and>
   \<not> sint (110 :: go_int) \<le> 100"
proof -
  have a: "\<exists>state' rep rng'.
      decisionRoll config state rng = Inr (state', rep, rng') \<and>
      sint (effectiveChance rep) \<le> 100"
    by (simp add: decisionRoll_closed Let_def sint_capChance)
  have b: "snd (execute (Show ''x'') (sconst 0)
          (executeAll [(Create ''x'' ''50'' ''30'' ''3'' ''0'', sconst 0),
                       (Roll ''x'', sconst 99), (Roll ''x'', sconst 99)]
             (emptyStore [''home'', ''user''])))
     = Inr [ConfigurationLine ''x'', ShowBaseChanceLine 50, ShowGraceLine 30,
            MaxPityLine 3, VarianceLine 0 30, CurrentStateLine, ShowPityCounterLine 2,
            CurrentChanceLine 110, LastRollLine 100,
            ConfigFileLine [''home'', ''user'', ''.roll'', ''x.toml'']]"
    by (simp add: run_simps)
  show ?thesis using a b by simp
qed

text \<open>
  Claim C5 fails as stated: a second \<open>create\<close> with the same name replaces the stored
  configuration.
\<close>

theorem create_replaces_existing_config:
  "loadConfig ''a'' (executeAll [(Create ''a'' ''10'' ''5'' ''3'' ''0'', sconst 0)]
                      (emptyStore [''home'', ''user'']))
     = Some \<lparr>Name = ''a'', Chance = 10, Grace = 5, Pity = 3, Variance = 0\<rparr> \<and>
   loadConfig ''a'' (executeAll [(Create ''a'' ''10'' ''5'' ''3'' ''0'', sconst 0),
                                (Create ''a'' ''20'' ''1'' ''2'' ''4'', sconst 0)]
                      (emptyStore [''home'', ''user'']))
     = Some \<lparr>Name = ''a'', Chance = 20, Grace = 1, Pity = 2, Variance = 4\<rparr> \<and>
   \<lparr>Name = ''a'', Chance = 10, Grace = 5, Pity = 3, Variance = 0\<rparr>
     \<noteq> \<lparr>Name = ''a'', Chance = 20, Grace = 1, Pity = 2, Variance = 4\<rparr>"
  by (simp add: run_simps)

text \<open>
  Claim C5, amended. A stored configuration changes only by a \<open>create\<close> or a \<open>delete\<close>
  whose name gives the path of its file: \<open>roll\<close>, \<open>list\<close>, \<open>show\<close> and \<open>dice\<close> leave every
  configuration file as it is, and so do a \<open>create\<close> and a \<open>delete\<close> whose name gives
  another path. A \<open>create\<close> that succeeds stores its parameters in the file of its path,
  whether or not the file exists: with the same name again, or with another name of
  the same path such as \<open>./a\<close> for \<open>a\<close>, it replaces the configuration.
\<close>

theorem config_changed_only_by_create_and_delete:
  "configFiles (fst (execute (Roll n) rng st)) = configFiles st \<and>
   configFiles (fst (execute List rng st)) = configFiles st \<and>
   configFiles (fst (execute (Show n) rng st)) = configFiles st \<and>
   configFiles (fst (execute (Dice t sh) rng st)) = configFiles st \<and>
   (configPath st n \<noteq> configPath st name \<longrightarrow>
      loadConfig name (fst (execute (Create n a1 a2 a3 a4) rng st)) = loadConfig name st \<and>
      loadConfig name (fst (execute (Delete n) rng st)) = loadConfig name st) \<and>
   (\<forall>st' outs.
      execute (Create n a1 a2 a3 a4) rng st = (st', Inr outs) \<and>
      configPath st n = configPath st name \<longrightarrow>
      (\<exists>chance grace pity variance.
         Atoi a1 = Some chance \<and> Atoi a2 = Some grace \<and> Atoi a3 = Some pity \<and>
         Atoi a4 = Some variance \<and>
         loadConfig name st' =
           Some \<lparr>Name = n, Chance = chance, Grace = grace, Pity = pity,
                  Variance = variance\<rparr>))"
proof -
  have r: "configFiles (fst (execute (Roll n) rng st)) = configFiles st"
    using rollCmd_configs [of n st rng] by (auto split: prod.splits)
  have l: "configFiles (fst (execute List rng st)) = configFiles st"
    by (simp add: listCmd_def)
  have s: "configFiles (fst (execute (Show n) rng st)) = configFiles st"
    by (auto simp: showCmd_def split: option.splits)
  have d: "configFiles (fst (execute (Dice t sh) rng st)) = configFiles st"
    by simp
  have o: "configPath st n \<noteq> configPath st name \<longrightarrow>
      loadConfig name (fst (execute (Create n a1 a2 a3 a4) rng st)) = loadConfig name st \<and>
      loadConfig name (fst (execute (Delete n) rng st)) = loadConfig name st"
    by (simp add: createCmd_other_config deleteCmd_other_config)
  have c: "\<forall>st' outs.
      execute (Create n a1 a2 a3 a4) rng st = (st', Inr outs) \<and>
      configPath st n = configPath st name \<longrightarrow>
      (\<exists>chance grace pity variance.
         Atoi a1 = Some chance \<and> Atoi a2 = Some grace \<and> Atoi a3 = Some pity \<and>
         Atoi a4 = Some variance \<and>
         loadConfig name st' =
           Some \<lparr>Name = n, Chance = chance, Grace = grace, Pity = pity,
                  Variance = variance\<rparr>)"
  proof (intro allI impI)
    fix st' outs
    assume h: "execute (Create n a1 a2 a3 a4) rng st = (st', Inr outs) \<and>
               configPath st n = configPath st name"
    hence ex: "createCmd n a1 a2 a3 a4 st = (st', Inr outs)" by simp
    from createCmd_ok [OF ex] obtain chance grace pity variance where
      at: "Atoi a1 = Some chance" "Atoi a2 = Some grace" "Atoi a3 = Some pity"
          "Atoi a4 = Some variance"
      and cd: "configDir st' = configDir st"
      and cf: "configFiles st' =
                 AList.update (configPath st n)
                   \<lparr>Name = n, Chance = chance, Grace = grace, Pity = pity,
                      Variance = variance\<rparr> (configFiles st)"
      by blast
    have "loadConfig name st' =
            Some \<lparr>Name = n, Chance = chance, Grace = grace, Pity = pity,
                   Variance = variance\<rparr>"
      using h cf by (simp add: loadConfig_def configPath_cong [OF cd] update_conv')
    thus "\<exists>chance grace pity variance.
         Atoi a1 = Some chance \<and> Atoi a2 = Some grace \<and> Atoi a3 = Some pity \<and>
         Atoi a4 = Some variance \<and>
         loadConfig name st' =
           Some \<lparr>Name = n, Chance = chance, Grace = grace, Pity = pity,
                  Variance = variance\<rparr>"
      using at by blast
  qed
  show ?thesis using r l s d o c by blast
qed

text \<open>
  With \<open>a\<close> stored, \<open>create b\<close> leaves the configuration of \<open>a\<close>; \<open>create ./a\<close> has the
  path of \<open>a\<close> and replaces its configuration.
\<close>

theorem config_changed_only_by_create_and_delete_witness:
  "configPath (executeAll [(Create ''a'' ''10'' ''5'' ''3'' ''0'', sconst 0)]
                 (emptyStore [''home'', ''user''])) ''b''
     \<noteq> configPath (executeAll [(Create ''a'' ''10'' ''5'' ''3'' ''0'', sconst 0)]
                     (emptyStore [''home'', ''user''])) ''a'' \<and>
   loadConfig ''a''
     (fst (execute (Create ''b'' ''1'' ''1'' ''1'' ''1'') (sconst 0)
        (executeAll [(Create ''a'' ''10'' ''5'' ''3'' ''0'', sconst 0)]
           (emptyStore [''home'', ''user'']))))
     = Some \<lparr>Name = ''a'', Chance = 10, Grace = 5, Pity = 3, Variance = 0\<rparr> \<and>
   configPath (executeAll [(Create ''a'' ''10'' ''5'' ''3'' ''0'', sconst 0)]
                 (emptyStore [''home'', ''user''])) ''./a''
     = configPath (executeAll [(Create ''a'' ''10'' ''5'' ''3'' ''0'', sconst 0)]
                     (emptyStore [''home'', ''user''])) ''a'' \<and>
   snd (execute (Create ''./a'' ''20'' ''1'' ''2'' ''4'') (sconst 0)
        (executeAll [(Create ''a'' ''10'' ''5'' ''3'' ''0'', sconst 0)]
           (emptyStore [''home'', ''user''])))
     = Inr [CreatedLine ''./a'', ChanceLine 20, GraceLine 1, PityLine 2, VarianceLine 4 1,
            ConfigSavedLine [''home'', ''user'', ''.roll'', ''a.toml'']] \<and>
   loadConfig ''a''
     (fst (execute (Create ''./a'' ''20'' ''1'' ''2'' ''4'') (sconst 0)
        (executeAll [(Create ''a'' ''10'' ''5'' ''3'' ''0'', sconst 0)]
           (emptyStore [''home'', ''user'']))))
     = Some \<lparr>Name = ''./a'', Chance = 20, Grace = 1, Pity = 2, Variance = 4\<rparr>"
  using config_changed_only_by_create_and_delete
    [of "''b''" "sconst 0"
        "executeAll [(Create ''a'' ''10'' ''5'' ''3'' ''0'', sconst 0)]
           (emptyStore [''home'', ''user''])"
        "''d6''" 0 "''a''" "''1''" "''1''" "''1''" "''1''"]
    config_changed_only_by_create_and_delete
    [of "''./a''" "sconst 0"
        "executeAll [(Create ''a'' ''10'' ''5'' ''3'' ''0'', sconst 0)]
           (emptyStore [''home'', ''user''])"
        "''d6''" 0 "''a''" "''20''" "''1''" "''2''" "''4''"]
  by (simp add: run_simps)

text \<open>
  Claim C6 fails as stated: \<open>create\<close> puts \<open>{0, 0}\<close> over a state that exists. After a
  failed roll the state of \<open>a\<close> is \<open>{1, 100}\<close>; a second \<open>create a\<close> makes it \<open>{0, 0}\<close>.
\<close>

theorem create_overwrites_existing_state:
  "readState ''a'' (executeAll [(Create ''a'' ''10'' ''5'' ''3'' ''0'', sconst 0),
                               (Roll ''a'', sconst 99)]
                     (emptyStore [''home'', ''user'']))
     = Some \<lparr>PityCounter = 1, LastRoll = 100\<rparr> \<and>
   readState ''a'' (executeAll [(Create ''a'' ''10'' ''5'' ''3'' ''0'', sconst 0),
                               (Roll ''a'', sconst 99),
                               (Create ''a'' ''10'' ''5'' ''3'' ''0'', sconst 0)]
                     (emptyStore [''home'', ''user'']))
     = Some \<lparr>PityCounter = 0, LastRoll = 0\<rparr> \<and>
   \<lparr>PityCounter = 1, LastRoll = 100\<rparr> \<noteq> \<lparr>PityCounter = 0, LastRoll = 0\<rparr>"
  by (simp add: run_simps)

text \<open>
  Claim C6, amended. A \<open>create\<close> that succeeds writes the state \<open>{0, 0}\<close> for the name,
  whether or not a state of that name exists, and leaves the states of the other names
  as they are.
\<close>

theorem create_resets_state:
  assumes "createCmd name a1 a2 a3 a4 st = (st', Inr outs)"
  shows "readState name st' = Some \<lparr>PityCounter = 0, LastRoll = 0\<rparr> \<and>
         (\<forall>n. n \<noteq> name \<longrightarrow> readState n st' = readState n st)"
  using createCmd_ok [OF assms]
  by (auto simp: readState_def split: option.splits)

text \<open>The second \<open>create a\<close> of the run above, on the store where \<open>a\<close> is \<open>{1, 100}\<close>.\<close>

theorem create_resets_state_witness:
  "createCmd ''a'' ''10'' ''5'' ''3'' ''0''
     \<lparr>configDir = [''home'', ''user'', ''.roll''],
      dirs = [[], [''home''], [''home'', ''user''], [''home'', ''user'', ''.roll'']],
      configFiles =
        [([''home'', ''user'', ''.roll'', ''a.toml''],
          \<lparr>Name = ''a'', Chance = 10, Grace = 5, Pity = 3, Variance = 0\<rparr>)],
      statesBucket = Some [''a'' \<mapsto> \<lparr>PityCounter = 1, LastRoll = 100\<rparr>,
                           ''b'' \<mapsto> \<lparr>PityCounter = 2, LastRoll = 7\<rparr>]\<rparr>
     = (\<lparr>configDir = [''home'', ''user'', ''.roll''],
         dirs = [[], [''home''], [''home'', ''user''], [''home'', ''user'', ''.roll'']],
         configFiles =
           [([''home'', ''user'', ''.roll'', ''a.toml''],
             \<lparr>Name = ''a'', Chance = 10, Grace = 5, Pity = 3, Variance = 0\<rparr>)],
         statesBucket = Some [''a'' \<mapsto> \<lparr>PityCounter = 0, LastRoll = 0\<rparr>,
                              ''b'' \<mapsto> \<lparr>PityCounter = 2, LastRoll = 7\<rparr>]\<rparr>,
        Inr [CreatedLine ''a'', ChanceLine 10, GraceLine 5, PityLine 3, VarianceLine 0 5,
             ConfigSavedLine [''home'', ''user'', ''.roll'', ''a.toml'']]) \<and>
   readState ''a''
     \<lparr>configDir = [''home'', ''user'', ''.roll''],
      dirs = [[], [''home''], [''home'', ''user''], [''home'', ''user'', ''.roll'']],
      configFiles =
        [([''home'', ''user'', ''.roll'', ''a.toml''],
          \<lparr>Name = ''a'', Chance = 10, Grace = 5, Pity = 3, Variance = 0\<rparr>)],
      statesBucket = Some [''a'' \<mapsto> \<lparr>PityCounter = 0, LastRoll = 0\<rparr>,
                           ''b'' \<mapsto> \<lparr>PityCounter = 2, LastRoll = 7\<rparr>]\<rparr>
     = Some \<lparr>PityCounter = 0, LastRoll = 0\<rparr> \<and>
   ''b'' \<noteq> ''a'' \<and>
   readState ''b''
     \<lparr>configDir = [''home'', ''user'', ''.roll''],
      dirs = [[], [''home''], [''home'', ''user''], [''home'', ''user'', ''.roll'']],
      configFiles =
        [([''home'', ''user'', ''.roll'', ''a.toml''],
          \<lparr>Name = ''a'', Chance = 10, Grace = 5, Pity = 3, Variance = 0\<rparr>)],
      statesBucket = Some [''a'' \<mapsto> \<lparr>PityCounter = 0, LastRoll = 0\<rparr>,
                           ''b'' \<mapsto> \<lparr>PityCounter = 2, LastRoll = 7\<rparr>]\<rparr>
     = Some \<lparr>PityCounter = 2, LastRoll = 7\<rparr>"
proof -
  let ?d = "[''home'', ''user'', ''.roll'']"
  let ?ds = "[[], [''home''], [''home'', ''user''], [''home'', ''user'', ''.roll'']]"
  let ?c = "[([''home'', ''user'', ''.roll'', ''a.toml''],
              \<lparr>Name = ''a'', Chance = 10, Grace = 5, Pity = 3, Variance = 0\<rparr>)]"
  let ?st = "\<lparr>configDir = ?d, dirs = ?ds, configFiles = ?c,
      statesBucket = Some [''a'' \<mapsto> \<lparr>PityCounter = 1, LastRoll = 100\<rparr>,
                           ''b'' \<mapsto> \<lparr>PityCounter = 2, LastRoll = 7\<rparr>]\<rparr>"
  let ?st' = "\<lparr>configDir = ?d, dirs = ?ds, configFiles = ?c,
      statesBucket = Some [''a'' \<mapsto> \<lparr>PityCounter = 0, LastRoll = 0\<rparr>,
                           ''b'' \<mapsto> \<lparr>PityCounter = 2, LastRoll = 7\<rparr>]\<rparr>"
  let ?outs = "[CreatedLine ''a'', ChanceLine 10, GraceLine 5, PityLine 3, VarianceLine 0 5,
             ConfigSavedLine [''home'', ''user'', ''.roll'', ''a.toml'']]"
  have run: "createCmd ''a'' ''10'' ''5'' ''3'' ''0'' ?st = (?st', Inr ?outs)"
    by (simp add: run_simps fun_upd_twist)
  show ?thesis
    using run create_resets_state [OF run] by (simp add: readState_def)
qed

text \<open>
  Claim C7 fails as stated: \<open>create\<close> stores \<open>LastRoll = 0\<close>, which is not in \<open>[1, 100]\<close>
  and is no raw roll.
\<close>

theorem last_roll_zero_after_create:
  "readState ''test''
     (executeAll [(Create ''test'' ''10'' ''5'' ''3'' ''0'', sconst 0)]
        (emptyStore [''home'', ''user'']))
     = Some \<lparr>PityCounter = 0, LastRoll = 0\<rparr> \<and>
   \<not> 1 \<le> sint (LastRoll \<lparr>PityCounter = 0, LastRoll = 0\<rparr>)"
  by (simp add: run_simps)

text \<open>
  Claim C7, amended. In every state that a sequence of invocations leaves, starting with
  an empty database (whatever the home directory and the files in it), \<open>LastRoll\<close> is 0
  when no roll of the name has completed since the name was last created, and
  otherwise it is the raw roll that the last completed roll of the name printed, a
  value of \<open>[1, 100]\<close>, whether that roll succeeded or failed.
\<close>

theorem last_roll_tracks_raw_roll:
  assumes "statesBucket st0 = None"
      and "executeTrace cmds (st0, Map.empty) = (st, drawn)"
      and "readState name st = Some s"
  shows "(case drawn name of
            None \<Rightarrow> LastRoll s = 0
          | Some r \<Rightarrow> LastRoll s = r \<and> 1 \<le> sint r \<and> sint r \<le> 100)"
proof -
  have init: "\<And>n s. readState n (fst (st0, Map.empty :: string \<rightharpoonup> go_int)) = Some s \<Longrightarrow>
                  (case snd (st0, Map.empty :: string \<rightharpoonup> go_int) n of
                     None \<Rightarrow> LastRoll s = 0
                   | Some r \<Rightarrow> LastRoll s = r \<and> 1 \<le> sint r \<and> sint r \<le> 100)"
    using assms(1) by (simp add: readState_def)
  show ?thesis
    using trace_keeps_last_roll [of "(st0, Map.empty)" name cmds s, OF init] assms(2,3)
    by simp
qed

text \<open>
  The first scenario of the specification, from the first start of the tool: after
  \<open>create\<close> the state is \<open>{0, 0}\<close> with no roll recorded; after a failed roll of 100 it is
  \<open>{1, 100}\<close> with 100 recorded; after a successful roll of 1 it is \<open>{0, 1}\<close> with 1
  recorded.
\<close>

theorem last_roll_tracks_raw_roll_witness:
  "statesBucket (emptyStore [''home'', ''user'']) = None \<and>
   executeTrace [(Create ''test'' ''10'' ''5'' ''3'' ''0'', sconst 0),
                 (Roll ''test'', sconst 99), (Roll ''test'', sconst 0)]
     (emptyStore [''home'', ''user''], Map.empty)
     = (\<lparr>configDir = [''home'', ''user'', ''.roll''],
         dirs = [[], [''home''], [''home'', ''user''], [''home'', ''user'', ''.roll'']],
         configFiles =
           [([''home'', ''user'', ''.roll'', ''test.toml''],
             \<lparr>Name = ''test'', Chance = 10, Grace = 5, Pity = 3, Variance = 0\<rparr>)],
         statesBucket = Some [''test'' \<mapsto> \<lparr>PityCounter = 0, LastRoll = 1\<rparr>]\<rparr>,
        [''test'' \<mapsto> 1]) \<and>
   readState ''test''
     \<lparr>configDir = [''home'', ''user'', ''.roll''],
      dirs = [[], [''home''], [''home'', ''user''], [''home'', ''user'', ''.roll'']],
      configFiles =
        [([''home'', ''user'', ''.roll'', ''test.toml''],
          \<lparr>Name = ''test'', Chance = 10, Grace = 5, Pity = 3, Variance = 0\<rparr>)],
      statesBucket = Some [''test'' \<mapsto> \<lparr>PityCounter = 0, LastRoll = 1\<rparr>]\<rparr>
     = Some \<lparr>PityCounter = 0, LastRoll = 1\<rparr> \<and>
   LastRoll \<lparr>PityCounter = 0, LastRoll = 1\<rparr> = 1"
proof -
  let ?cmds = "[(Create ''test'' ''10'' ''5'' ''3'' ''0'', sconst 0),
                 (Roll ''test'', sconst 99), (Roll ''test'', sconst 0)]"
  let ?st = "\<lparr>configDir = [''home'', ''user'', ''.roll''],
      dirs = [[], [''home''], [''home'', ''user''], [''home'', ''user'', ''.roll'']],
      configFiles =
        [([''home'', ''user'', ''.roll'', ''test.toml''],
          \<lparr>Name = ''test'', Chance = 10, Grace = 5, Pity = 3, Variance = 0\<rparr>)],
      statesBucket = Some [''test'' \<mapsto> \<lparr>PityCounter = 0, LastRoll = 1\<rparr>]\<rparr>"
  have e: "statesBucket (emptyStore [''home'', ''user'']) = None"
    by (simp add: emptyStore_def)
  have run: "executeTrace ?cmds (emptyStore [''home'', ''user''], Map.empty)
               = (?st, [''test'' \<mapsto> 1])"
    by (simp add: run_simps printedRoll_def List.map_filter_simps rollOf_def)
  have rd: "readState ''test'' ?st = Some \<lparr>PityCounter = 0, LastRoll = 1\<rparr>"
    by (simp add: readState_def)
  show ?thesis
    using e run rd last_roll_tracks_raw_roll [OF e run rd] by simp
qed

end
